theory Spec2Isabelle
  imports Complex_Main "HOL-Library.List_Lexorder" "HOL-Library.Product_Lexorder"
begin

section \<open>Cards and the deck (utils/pokerLogic)\<close>

text \<open>
  The numbers of the table are JavaScript numbers that only ever hold integers (chip
  counts, card values, scores far below \<open>2^53\<close>); they are modelled as \<open>int\<close>.  An array
  slot read out of range is \<open>undefined\<close> in JavaScript; a property read on \<open>undefined\<close>
  throws a \<open>TypeError\<close>, which is the only error the modelled code can raise.
\<close>

datatype error = TypeError

datatype suit = hearts | diamonds | clubs | spades

text \<open>The field \<open>value\<close> of a card is called \<open>cval\<close> here.\<close>

record card =
  suit :: suit
  rank :: string
  cval :: int

record handRank =
  rank :: int
  name :: string
  score :: int

definition SUITS :: "suit list" where
  "SUITS = [hearts, diamonds, clubs, spades]"

definition RANKS :: "string list" where
  "RANKS = [''2'', ''3'', ''4'', ''5'', ''6''] @ [''7'', ''8'', ''9'', ''10''] @ [''J'', ''Q'', ''K'', ''A'']"

definition createDeck :: "card list" where
  "createDeck =
     concat (map (\<lambda>s. map (\<lambda>(index, r). \<lparr>card.suit = s, card.rank = r, cval = int index + 2\<rparr>)
                              (enumerate 0 RANKS)) SUITS)"

section \<open>The hand evaluator\<close>

text \<open>\<open>cards.sort((a, b) => b.value - a.value)\<close>: a stable sort, descending by value.\<close>

definition sortDesc :: "card list \<Rightarrow> card list" where
  "sortDesc cs = sort_key (\<lambda>c. - cval c) cs"

definition sortDescInt :: "int list \<Rightarrow> int list" where
  "sortDescInt vs = sort_key (\<lambda>v. - v) vs"

text \<open>
  \<open>isFlush\<close>: the four suit counters are visited in the order of the object literal
  (hearts, diamonds, clubs, spades); the first suit with at least five cards is returned.
\<close>

definition isFlush :: "card list \<Rightarrow> suit option" where
  "isFlush c = find (\<lambda>s. 5 \<le> length (filter (\<lambda>card. card.suit card = s) c)) [hearts, diamonds, clubs, spades]"

text \<open>
  \<open>isStraight\<close>: the distinct values, descending, with 1 appended when an ace is present;
  the first window of five whose ends differ by 4 gives its top value.
\<close>

definition uniqueValues :: "card list \<Rightarrow> int list" where
  "uniqueValues c =
     (let u = sortDescInt (remdups (map cval c))
      in if 14 \<in> set u then u @ [1] else u)"

fun straightScan :: "int list \<Rightarrow> int option" where
  "straightScan (a # b # c # d # e # rest) =
     (if a - e = 4 then Some a else straightScan (b # c # d # e # rest))"
| "straightScan _ = None"

definition isStraight :: "card list \<Rightarrow> int option" where
  "isStraight c = straightScan (uniqueValues c)"

text \<open>
  \<open>counts\<close> is an object keyed by card value.  \<open>Object.keys\<close> lists the keys that are
  array indices (non-negative integers) in ascending order, then the other keys in
  insertion order.
\<close>

definition counts :: "card list \<Rightarrow> int \<Rightarrow> nat" where
  "counts cards v = length (filter (\<lambda>c. cval c = v) cards)"

definition objectKeys :: "card list \<Rightarrow> int list" where
  "objectKeys cards =
     (let vs = map cval cards
      in sort (remdups (filter (\<lambda>v. 0 \<le> v) vs)) @ rev (remdups (rev (filter (\<lambda>v. v < 0) vs))))"

definition fourOfAKind :: "card list \<Rightarrow> int option" where
  "fourOfAKind cards = find (\<lambda>k. counts cards k = 4) (objectKeys cards)"

definition threeOfAKind :: "card list \<Rightarrow> int list" where
  "threeOfAKind cards = sortDescInt (filter (\<lambda>k. counts cards k = 3) (objectKeys cards))"

definition pairs :: "card list \<Rightarrow> int list" where
  "pairs cards = sortDescInt (filter (\<lambda>k. counts cards k = 2) (objectKeys cards))"

text \<open>A number used as a condition: \<open>null\<close> and 0 are falsy.\<close>

definition truthy :: "int option \<Rightarrow> bool" where
  "truthy x = (case x of None \<Rightarrow> False | Some v \<Rightarrow> v \<noteq> 0)"

text \<open>\<open>cards.find(p)?.value || 0\<close>: the value of the first card satisfying \<open>p\<close>, else 0.\<close>

definition kickerOr0 :: "(card \<Rightarrow> bool) \<Rightarrow> card list \<Rightarrow> int" where
  "kickerOr0 p cards = (case find p cards of None \<Rightarrow> 0 | Some c \<Rightarrow> cval c)"

text \<open>\<open>xs.reduce((acc, c, i) => acc + c.value * Math.pow(15, e - i), 0)\<close>.\<close>

definition positional :: "nat \<Rightarrow> card list \<Rightarrow> int" where
  "positional e xs = foldl (\<lambda>acc (i, c). acc + cval c * 15 ^ (e - i)) 0 (enumerate 0 xs)"

text \<open>The body of \<open>evaluateHand\<close> after the merged cards have been sorted.\<close>

definition evaluateSorted :: "card list \<Rightarrow> error + handRank" where
  "evaluateSorted cards =
     (let flushSuit = isFlush cards;
          flushCards = (case flushSuit of Some s \<Rightarrow> filter (\<lambda>c. card.suit c = s) cards | None \<Rightarrow> []);
          straightHigh = isStraight cards;
          straightFlushHigh = (case flushSuit of Some s \<Rightarrow> isStraight flushCards | None \<Rightarrow> None)
      in
      if truthy straightFlushHigh then
        Inr \<lparr>handRank.rank = 8, handRank.name = ''Straight Flush'',
             score = 8000000 + (case straightFlushHigh of Some h \<Rightarrow> h | None \<Rightarrow> 0)\<rparr>
      else
      case fourOfAKind cards of
        Some q \<Rightarrow>
          (let kicker = kickerOr0 (\<lambda>c. cval c \<noteq> q) cards
           in Inr \<lparr>handRank.rank = 7, handRank.name = ''Four of a Kind'',
                   score = 7000000 + q * 100 + kicker\<rparr>)
      | None \<Rightarrow>
      if threeOfAKind cards \<noteq> [] \<and> (1 < length (threeOfAKind cards) \<or> pairs cards \<noteq> []) then
        (let trip = hd (threeOfAKind cards);
             pair = (if 1 < length (threeOfAKind cards) then threeOfAKind cards ! 1 else hd (pairs cards))
         in Inr \<lparr>handRank.rank = 6, handRank.name = ''Full House'', score = 6000000 + trip * 100 + pair\<rparr>)
      else if flushSuit \<noteq> None then
        Inr \<lparr>handRank.rank = 5, handRank.name = ''Flush'', score = 5000000 + positional 4 (take 5 flushCards)\<rparr>
      else if truthy straightHigh then
        Inr \<lparr>handRank.rank = 4, handRank.name = ''Straight'',
             score = 4000000 + (case straightHigh of Some h \<Rightarrow> h | None \<Rightarrow> 0)\<rparr>
      else if threeOfAKind cards \<noteq> [] then
        (let trip = hd (threeOfAKind cards);
             kickers = take 2 (filter (\<lambda>c. cval c \<noteq> trip) cards)
         in case kickers of
              k0 # k1 # _ \<Rightarrow>
                Inr \<lparr>handRank.rank = 3, handRank.name = ''Three of a Kind'',
                     score = 3000000 + trip * 1000 + cval k0 * 15 + cval k1\<rparr>
            | _ \<Rightarrow> Inl TypeError)
      else if 2 \<le> length (pairs cards) then
        (let p1 = hd (pairs cards);
             p2 = pairs cards ! 1;
             kicker = kickerOr0 (\<lambda>c. cval c \<noteq> p1 \<and> cval c \<noteq> p2) cards
         in Inr \<lparr>handRank.rank = 2, handRank.name = ''Two Pair'', score = 2000000 + p1 * 200 + p2 * 15 + kicker\<rparr>)
      else if pairs cards \<noteq> [] then
        (let p1 = hd (pairs cards);
             kickers = positional 2 (take 3 (filter (\<lambda>c. cval c \<noteq> p1) cards))
         in Inr \<lparr>handRank.rank = 1, handRank.name = ''Pair'', score = 1000000 + p1 * 5000 + kickers\<rparr>)
      else
        Inr \<lparr>handRank.rank = 0, handRank.name = ''High Card'', score = positional 4 (take 5 cards)\<rparr>)"

text \<open>
  \<open>evaluateHand\<close>.  A slot of either array may hold \<open>undefined\<close> (\<open>None\<close>: a card popped
  from an exhausted deck); the sort moves such slots to the end without comparing them and
  \<open>isFlush\<close>, which reads \<open>card.suit\<close> of every slot, then throws.
\<close>

definition evaluateHand :: "card option list \<Rightarrow> card option list \<Rightarrow> error + handRank" where
  "evaluateHand holeCards communityCards =
     (case those (holeCards @ communityCards) of
        None \<Rightarrow> Inl TypeError
      | Some cs \<Rightarrow> evaluateSorted (sortDesc cs))"

section \<open>The table state (types.ts)\<close>

datatype playerStatus = Active | Folded | AllIn | Bust | Spectator

datatype gameStage = Preflop | Flop | Turn | River | Showdown | GameOver

datatype action = Check | Call | Fold | Raise

text \<open>
  The display label \<open>lastAction\<close> (\<open>'Fold'\<close>, \<open>'Check'\<close>, \<open>'Call'\<close>, \<open>`Raise ${n}`\<close>) is kept
  as a tagged value; \<open>None\<close> is \<open>undefined\<close>.  The field \<open>id\<close> is called \<open>pid\<close>.  A hand
  slot is \<open>None\<close> when it holds \<open>undefined\<close>.
\<close>

datatype actionLabel = FoldLabel | CheckLabel | CallLabel | RaiseLabel int

record player =
  pid :: int
  name :: string
  isHuman :: bool
  chips :: int
  hand :: "card option list"
  currentBet :: int
  status :: playerStatus
  lastAction :: "actionLabel option"
  totalInvested :: int

record winner =
  ids :: "int list"
  description :: string
  amount :: int

text \<open>
  The transcript \<open>logs\<close>, the flag \<open>isThinking\<close> and \<open>gameMode\<close> are display and scheduling
  data that no modelled function reads; they are left out of the state.
\<close>

record gameState =
  players :: "player list"
  pot :: int
  communityCards :: "card option list"
  deck :: "card list"
  dealerIndex :: int
  currentPlayerIndex :: int
  currentBet :: int
  minRaise :: int
  lastAggressorIndex :: "int option"
  stage :: gameStage
  winners :: "winner list"

definition SB_AMOUNT :: int where "SB_AMOUNT = 5"
definition BB_AMOUNT :: int where "BB_AMOUNT = 10"

text \<open>\<open>a % 8\<close> on integers: the remainder takes the sign of the dividend.\<close>

definition rem8 :: "int \<Rightarrow> int" where
  "rem8 a = (if a < 0 then - ((- a) mod 8) else a mod 8)"

text \<open>\<open>xs[i]\<close>: \<open>undefined\<close> (\<open>None\<close>) outside the array.\<close>

definition elemAt :: "'a list \<Rightarrow> int \<Rightarrow> 'a option" where
  "elemAt xs i = (if 0 \<le> i \<and> nat i < length xs then Some (xs ! nat i) else None)"

text \<open>\<open>deck.pop()\<close>: the last card, or \<open>undefined\<close> from an empty deck.\<close>

definition pop :: "card list \<Rightarrow> card option \<times> card list" where
  "pop d = (if d = [] then (None, []) else (Some (last d), butlast d))"

text \<open>
  Results of functions with an unbounded \<open>while\<close> loop: \<open>None\<close> when the loop does not
  end, \<open>Some (Inl e)\<close> when the code throws, \<open>Some (Inr v)\<close> when it returns \<open>v\<close>.
\<close>

definition bindR :: "(error + 'a) option \<Rightarrow> ('a \<Rightarrow> (error + 'b) option) \<Rightarrow> (error + 'b) option" where
  "bindR m f = (case m of None \<Rightarrow> None | Some (Inl e) \<Rightarrow> Some (Inl e) | Some (Inr x) \<Rightarrow> f x)"

section \<open>Starting a hand\<close>

definition cleanPlayer :: "player \<Rightarrow> player" where
  "cleanPlayer p =
     (if chips p = 0 \<and> status p \<noteq> Spectator then p\<lparr>status := Spectator\<rparr>
      else if status p = Bust then p\<lparr>status := Spectator\<rparr>
      else p\<lparr>status := Active, player.currentBet := 0, totalInvested := 0, hand := [], lastAction := None\<rparr>)"

text \<open>\<open>while (cleanedPlayers[i].status === 'spectator') i = (i + 1) % 8\<close>.\<close>

partial_function (option) skipSpectators :: "player list \<Rightarrow> int \<Rightarrow> (error + int) option" where
  "skipSpectators ps i =
     (case elemAt ps i of
        None \<Rightarrow> Some (Inl TypeError)
      | Some p \<Rightarrow> if status p = Spectator then skipSpectators ps (rem8 (i + 1)) else Some (Inr i))"

declare skipSpectators.simps [code]

text \<open>Two cards are popped for every active seat, in seat order.\<close>

fun dealHands :: "player list \<Rightarrow> card list \<Rightarrow> player list" where
  "dealHands [] d = []"
| "dealHands (p # ps) d =
     (if status p = Active then
        (let (c1, d1) = pop d; (c2, d2) = pop d1
         in p\<lparr>hand := [c1, c2]\<rparr> # dealHands ps d2)
      else p # dealHands ps d)"

fun dealDeck :: "player list \<Rightarrow> card list \<Rightarrow> card list" where
  "dealDeck [] d = d"
| "dealDeck (p # ps) d =
     (if status p = Active then dealDeck ps (snd (pop (snd (pop d)))) else dealDeck ps d)"

text \<open>
  Posting a blind: the seat pays \<open>Math.min(chips, blind)\<close> and is all-in when nothing is
  left.  The seat object is updated in place, so the big blind is posted on the list the
  small blind has changed.
\<close>

definition posted :: "player \<Rightarrow> int \<Rightarrow> int" where
  "posted p blind = min (chips p) blind"

definition postBlind :: "player \<Rightarrow> int \<Rightarrow> player" where
  "postBlind p blind =
     (let q = p\<lparr>chips := chips p - posted p blind,
                player.currentBet := posted p blind,
                totalInvested := posted p blind\<rparr>
      in if chips q = 0 then q\<lparr>status := AllIn\<rparr> else q)"

text \<open>
  The last part of \<open>startNewHand\<close>: both blind seats are read, the blinds are posted and
  the state of the new hand is returned.
\<close>

definition postBlinds ::
    "gameState \<Rightarrow> player list \<Rightarrow> card list \<Rightarrow> int \<Rightarrow> int \<Rightarrow> int \<Rightarrow> int \<Rightarrow> error + gameState" where
  "postBlinds prev dealt deck' nextDealer sbIndex bbIndex utgIndex =
     (case (elemAt dealt sbIndex, elemAt dealt bbIndex) of
        (Some sbPlayer, Some _) \<Rightarrow>
          (let sbPosted = posted sbPlayer SB_AMOUNT;
               ps1 = dealt[nat sbIndex := postBlind sbPlayer SB_AMOUNT];
               bbPlayer = ps1 ! nat bbIndex;
               bbPosted = posted bbPlayer BB_AMOUNT;
               ps2 = ps1[nat bbIndex := postBlind bbPlayer BB_AMOUNT]
           in Inr (prev\<lparr>players := ps2,
                        deck := deck',
                        communityCards := [],
                        pot := sbPosted + bbPosted,
                        gameState.currentBet := BB_AMOUNT,
                        minRaise := BB_AMOUNT,
                        dealerIndex := nextDealer,
                        currentPlayerIndex := utgIndex,
                        stage := Preflop,
                        lastAggressorIndex := None,
                        winners := []\<rparr>))
      | _ \<Rightarrow> Inl TypeError)"

text \<open>
  \<open>startNewHand\<close>; \<open>shuffled\<close> is the value of \<open>shuffleDeck(createDeck())\<close>.  The two
  session-ending branches return the previous state.  The three seat scans run before the
  heads-up adjustment replaces their results.
\<close>

definition startNewHand :: "gameState \<Rightarrow> card list \<Rightarrow> (error + gameState) option" where
  "startNewHand prev shuffled =
     (let cleanedPlayers = map cleanPlayer (players prev) in
      case elemAt cleanedPlayers 0 of
        None \<Rightarrow> Some (Inl TypeError)
      | Some human \<Rightarrow>
      if status human = Spectator then Some (Inr prev)
      else
      let activeCount = length (filter (\<lambda>p. status p = Active) cleanedPlayers) in
      if activeCount < 2 then Some (Inr prev)
      else
      bindR (skipSpectators cleanedPlayers (rem8 (dealerIndex prev + 1))) (\<lambda>nextDealer.
      let dealt = dealHands cleanedPlayers shuffled;
          deck' = dealDeck cleanedPlayers shuffled in
      bindR (skipSpectators dealt (rem8 (nextDealer + 1))) (\<lambda>sb.
      bindR (skipSpectators dealt (rem8 (sb + 1))) (\<lambda>bb.
      bindR (skipSpectators dealt (rem8 (bb + 1))) (\<lambda>utg.
      let sbIndex = (if activeCount = 2 then nextDealer else sb);
          bbIndex = (if activeCount = 2 then rem8 (nextDealer + 1) else bb);
          utgIndex = (if activeCount = 2 then nextDealer else utg)
      in Some (postBlinds prev dealt deck' nextDealer sbIndex bbIndex utgIndex))))))"

section \<open>Applying an action\<close>

text \<open>\<open>if (q.chips === 0) q.status = 'all-in'\<close>.\<close>

definition allInIfEmpty :: "player \<Rightarrow> player" where
  "allInIfEmpty q = (if chips q = 0 then q\<lparr>status := AllIn\<rparr> else q)"

text \<open>
  The quantities of the \<open>raise\<close> branch.  \<open>amount || d\<close> takes \<open>d\<close> when the amount is
  \<open>undefined\<close> or 0.
\<close>

definition totalBet :: "gameState \<Rightarrow> int option \<Rightarrow> int" where
  "totalBet prev amt =
     (case amt of
        None \<Rightarrow> gameState.currentBet prev + minRaise prev
      | Some a \<Rightarrow> if a = 0 then gameState.currentBet prev + minRaise prev else a)"

definition actualAdded :: "gameState \<Rightarrow> player \<Rightarrow> int option \<Rightarrow> int" where
  "actualAdded prev player amt = min (totalBet prev amt - player.currentBet player) (chips player)"

definition finalTotalBet :: "gameState \<Rightarrow> player \<Rightarrow> int option \<Rightarrow> int" where
  "finalTotalBet prev player amt = player.currentBet player + actualAdded prev player amt"

text \<open>
  The state update of \<open>handleAction\<close>.  With no seat at \<open>currentPlayerIndex\<close> the read of
  \<open>player.name\<close> throws.
\<close>

definition handleAction :: "gameState \<Rightarrow> action \<Rightarrow> int option \<Rightarrow> error + gameState" where
  "handleAction prev act amt =
     (case elemAt (players prev) (currentPlayerIndex prev) of
        None \<Rightarrow> Inl TypeError
      | Some player \<Rightarrow>
      let i = nat (currentPlayerIndex prev);
          toCall = gameState.currentBet prev - player.currentBet player;
          safeAction = (if act = Check \<and> 0 < toCall then Fold else act)
      in
      case safeAction of
        Fold \<Rightarrow>
          Inr (prev\<lparr>players := (players prev)[i := player\<lparr>status := Folded, lastAction := Some FoldLabel\<rparr>]\<rparr>)
      | Check \<Rightarrow>
          Inr (prev\<lparr>players := (players prev)[i := player\<lparr>lastAction := Some CheckLabel\<rparr>]\<rparr>)
      | Call \<Rightarrow>
          (let actualCall = min toCall (chips player)
           in Inr (prev\<lparr>players := (players prev)[i := allInIfEmpty
                              (player\<lparr>chips := chips player - actualCall,
                                     player.currentBet := player.currentBet player + actualCall,
                                     totalInvested := totalInvested player + actualCall,
                                     lastAction := Some CallLabel\<rparr>)],
                          pot := pot prev + actualCall\<rparr>))
      | Raise \<Rightarrow>
          (let raiseDiff = finalTotalBet prev player amt - gameState.currentBet prev;
               newMinRaise = (if minRaise prev \<le> raiseDiff then raiseDiff else minRaise prev)
           in Inr (prev\<lparr>players := (players prev)[i := allInIfEmpty
                              (player\<lparr>chips := chips player - actualAdded prev player amt,
                                     player.currentBet := finalTotalBet prev player amt,
                                     totalInvested := totalInvested player + actualAdded prev player amt,
                                     lastAction := Some (RaiseLabel (finalTotalBet prev player amt))\<rparr>)],
                          pot := pot prev + actualAdded prev player amt,
                          gameState.currentBet := max (gameState.currentBet prev) (finalTotalBet prev player amt),
                          minRaise := newMinRaise,
                          lastAggressorIndex := Some (pid player)\<rparr>)))"

section \<open>Showdown and fold-win\<close>





text \<open>The chip distribution and the returned state, for the single winner record.\<close>

definition payWinners :: "gameState \<Rightarrow> winner \<Rightarrow> gameState" where
  "payWinners state w =
     state\<lparr>players := map (\<lambda>p. if pid p \<in> set (ids w) then p\<lparr>chips := chips p + amount w\<rparr> else p)
                           (players state),
            stage := GameOver,
            winners := [w],
            pot := 0\<rparr>"


section \<open>Street advancement\<close>



definition resetPlayer :: "player \<Rightarrow> player" where
  "resetPlayer p =
     p\<lparr>player.currentBet := 0, lastAction := (if status p = Active then None else lastAction p)\<rparr>"




section \<open>Turn advancement\<close>



section \<open>Hand analysis and the decision sanitizer (services/geminiService)\<close>

text \<open>
  Of the result of \<open>analyzeHand\<close> the fields \<open>draws\<close>, \<open>outs\<close> and \<open>rankValue\<close> are
  modelled; the two display labels (\<open>description\<close>, \<open>rankName\<close>) are not read by the
  sanitizer and are left out.
\<close>

record handAnalysis =
  draws :: "string list"
  outs :: int
  rankValue :: int

text \<open>The straight-draw loop over windows of four distinct ascending values; the loop
  state is the draw list, the out count and the flag \<open>isOESD\<close>.\<close>

fun drawScan :: "int list \<Rightarrow> string list \<times> int \<times> bool \<Rightarrow> string list \<times> int \<times> bool" where
  "drawScan (a # b # c # d # rest) (ds, n, isOESD) =
     (let range = d - a;
          st = (if range \<le> 4 then
                  (if range = 3 then
                     (if \<not> isOESD then (ds @ [''Open-Ended Straight Draw''], n + 8, True)
                      else (ds, n, isOESD))
                   else
                     (if ''Gutshot Straight Draw'' \<notin> set ds \<and> \<not> isOESD
                      then (ds @ [''Gutshot Straight Draw''], n + 4, isOESD)
                      else (ds, n, isOESD)))
                else (ds, n, isOESD))
      in drawScan (b # c # d # rest) st)"
| "drawScan _ st = st"

definition analyzeHand :: "card option list \<Rightarrow> card option list \<Rightarrow> gameStage \<Rightarrow> error + handAnalysis" where
  "analyzeHand holeCards board stg =
     (case evaluateHand holeCards board of
        Inl e \<Rightarrow> Inl e
      | Inr hr \<Rightarrow>
      if stg = Preflop \<and> length holeCards = 2 then Inr \<lparr>draws = [], outs = 0, rankValue = 0\<rparr>
      else
      case those (holeCards @ board) of
        None \<Rightarrow> Inl TypeError
      | Some allCards \<Rightarrow>
      let hasFlushDraw = (\<exists>s \<in> set (remdups (map card.suit allCards)).
                             length (filter (\<lambda>c. card.suit c = s) allCards) = 4);
          (ds0, n0) = (if hasFlushDraw then ([''Flush Draw''], 9) else ([], 0));
          sortedValues = sort (remdups (map cval allCards));
          vals = (if 14 \<in> set sortedValues then 1 # sortedValues else sortedValues);
          (ds1, n1, isOESD) = drawScan vals (ds0, n0, False);
          n2 = (if hasFlushDraw \<and> (''Open-Ended Straight Draw'' \<in> set ds1 \<or> ''Gutshot Straight Draw'' \<in> set ds1)
                then n1 - 2 else n1)
      in Inr \<lparr>draws = ds1, outs = n2, rankValue = handRank.rank hr\<rparr>)"

datatype aiActionKind = AiCheck | AiCall | AiRaise | AiFold

record aiAction =
  action :: aiActionKind
  amount :: "real option"
  reasoning :: "string option"

text \<open>
  \<open>getAIDecision\<close>.  The raw decision comes from the offline heuristic (which draws a
  random number) or from the external service; it is the parameter \<open>decision\<close> here, and
  the sanitizing steps that every raw decision passes through are modelled.  The amount of
  a raw decision is any number the service sends, so it is a real here; the sanitizer only
  compares and assigns it.  The table's own numbers are integers, for which
  \<open>Math.ceil(minRaiseAmount * 2.0)\<close> is \<open>minRaiseAmount * 2\<close>.
\<close>

definition getAIDecision ::
    "player \<Rightarrow> gameState \<Rightarrow> string list \<Rightarrow> int \<Rightarrow> aiAction \<Rightarrow> error + aiAction" where
  "getAIDecision player gs validActions minRaiseAmount decision =
     (let toCall = gameState.currentBet gs - player.currentBet player in
      case (if action decision = AiCheck \<and> 0 < toCall then
              (case analyzeHand (hand player) (communityCards gs) (stage gs) of
                 Inl e \<Rightarrow> Inl e
               | Inr analysis \<Rightarrow>
                   (let isWorthCalling = (1 \<le> rankValue analysis \<or> 6 \<le> outs analysis)
                    in Inr (decision\<lparr>action := (if isWorthCalling then AiCall else AiFold),
                                     reasoning := Some ''Auto-corrected illegal check''\<rparr>)))
            else Inr decision) of
        Inl e \<Rightarrow> Inl e
      | Inr d \<Rightarrow>
          if action d = AiRaise then
            (let minLegalRaiseTotal = real_of_int (gameState.currentBet gs + minRaiseAmount);
                 maxChips = real_of_int (chips player + player.currentBet player);
                 t0 = (case aiAction.amount d of None \<Rightarrow> 0 | Some a \<Rightarrow> a);
                 preferredMinRaise = real_of_int (gameState.currentBet gs + minRaiseAmount * 2);
                 t1 = (if t0 < preferredMinRaise then preferredMinRaise else t0);
                 t2 = (if t1 < minLegalRaiseTotal then minLegalRaiseTotal else t1);
                 t3 = (if maxChips < t2 then maxChips else t2);
                 t4 = (if minLegalRaiseTotal \<le> maxChips \<and> t3 < minLegalRaiseTotal then minLegalRaiseTotal else t3)
             in Inr (d\<lparr>aiAction.amount := Some t4\<rparr>))
          else Inr d)"

section \<open>Notions used by the properties\<close>




section \<open>Example tables\<close>

definition seat :: "int \<Rightarrow> int \<Rightarrow> int \<Rightarrow> playerStatus \<Rightarrow> actionLabel option \<Rightarrow> player" where
  "seat i c b st la =
     \<lparr>pid = i, player.name = ''Bot'', isHuman = (i = 0), chips = c, hand = [],
      player.currentBet = b, status = st, lastAction = la, totalInvested = b\<rparr>"

definition table :: "player list \<Rightarrow> int \<Rightarrow> int \<Rightarrow> int \<Rightarrow> int \<Rightarrow> gameStage \<Rightarrow> gameState" where
  "table ps pt tb cur dealer stg =
     \<lparr>players = ps, pot = pt, communityCards = [], deck = [], dealerIndex = dealer,
      currentPlayerIndex = cur, gameState.currentBet = tb, minRaise = BB_AMOUNT,
      lastAggressorIndex = None, stage = stg, winners = []\<rparr>"

text \<open>Seat 0 has bet nothing on this street and faces a bet of 10.\<close>

definition facingBet :: gameState where
  "facingBet = table [seat 0 1000 0 Active None, seat 1 990 10 Active (Some (RaiseLabel 10))] 10 10 0 1 Flop"

text \<open>Seat 0 has 3 chips left behind a street bet of 10 that matches the table bet; seat 1
  made the last raise.\<close>

definition shortStack :: gameState where
  "shortStack =
     (table [seat 0 3 10 Active None, seat 1 990 10 Active (Some (RaiseLabel 10))] 20 10 0 1 Flop)
       \<lparr>lastAggressorIndex := Some 1\<rparr>"







section \<open>Invariants of a hand\<close>



text \<open>
  Two seats, 0 and 2, are left with chips and the button moves to seat 0: a heads-up hand
  whose two players do not sit next to each other.
\<close>

definition headsUp :: gameState where
  "headsUp =
     table [seat 0 4000 0 Active None, seat 1 0 0 Folded None, seat 2 4000 0 Active None,
            seat 3 0 0 Folded None, seat 4 0 0 Folded None, seat 5 0 0 Folded None,
            seat 6 0 0 Folded None, seat 7 0 0 Folded None] 0 0 (- 1) 7 GameOver"








section \<open>Hand strength by the rules of the specification\<close>








section \<open>Basic facts\<close>

lemma elemAt_SomeD: "elemAt xs i = Some x \<Longrightarrow> 0 \<le> i \<and> nat i < length xs \<and> xs ! nat i = x"
  by (auto simp: elemAt_def split: if_splits)

lemma map_update_same: "f x = f (xs ! i) \<Longrightarrow> map f (xs[i := x]) = map f xs"
  by (metis list_update_id map_update)

section \<open>Properties of \<open>handleAction\<close>\<close>

text \<open>
  Claim C3 (illegal-check correction).  When \<open>handleAction\<close> receives \<open>check\<close> while the
  table bet-to-match strictly exceeds the acting seat's street bet, it returns exactly the
  state a \<open>fold\<close> returns: the acting seat's status is \<open>folded\<close>, and the pot, every stack,
  every street bet, the table bet, the minimum raise increment and the last-aggressor
  marker are unchanged.
\<close>

theorem illegal_check_is_fold:
  assumes "elemAt (players s) (currentPlayerIndex s) = Some p"
    and "player.currentBet p < gameState.currentBet s"
  shows "\<exists>s'. handleAction s Check amt = Inr s'
            \<and> handleAction s Fold amt = Inr s'
            \<and> status (players s' ! nat (currentPlayerIndex s)) = Folded
            \<and> pot s' = pot s
            \<and> map chips (players s') = map chips (players s)
            \<and> map player.currentBet (players s') = map player.currentBet (players s)
            \<and> gameState.currentBet s' = gameState.currentBet s
            \<and> minRaise s' = minRaise s
            \<and> lastAggressorIndex s' = lastAggressorIndex s"
proof -
  from assms(1) have i: "nat (currentPlayerIndex s) < length (players s)"
    and p: "players s ! nat (currentPlayerIndex s) = p"
    using elemAt_SomeD [OF assms(1)] by simp_all
  show ?thesis
    using assms i p by (simp add: handleAction_def map_update_same)
qed

theorem illegal_check_is_fold_witness:
  "elemAt (players facingBet) (currentPlayerIndex facingBet) = Some (seat 0 1000 0 Active None)
   \<and> player.currentBet (seat 0 1000 0 Active None) < gameState.currentBet facingBet
   \<and> (\<exists>s'. handleAction facingBet Check None = Inr s'
          \<and> handleAction facingBet Fold None = Inr s'
          \<and> status (players s' ! nat (currentPlayerIndex facingBet)) = Folded
          \<and> pot s' = pot facingBet
          \<and> map chips (players s') = map chips (players facingBet)
          \<and> map player.currentBet (players s') = map player.currentBet (players facingBet)
          \<and> gameState.currentBet s' = gameState.currentBet facingBet
          \<and> minRaise s' = minRaise facingBet
          \<and> lastAggressorIndex s' = lastAggressorIndex facingBet)"
proof -
  have h1: "elemAt (players facingBet) (currentPlayerIndex facingBet) = Some (seat 0 1000 0 Active None)"
    by (simp add: facingBet_def table_def elemAt_def)
  have h2: "player.currentBet (seat 0 1000 0 Active None) < gameState.currentBet facingBet"
    by (simp add: facingBet_def table_def seat_def)
  from illegal_check_is_fold [OF h1 h2, of None] h1 h2 show ?thesis by blast
qed

text \<open>
  Claim C4 as stated fails: a raise that tops the table bet by less than the minimum raise
  increment does change the last-aggressor marker.  Here seat 0 moves its last 3 chips in
  behind a street bet of 10 (increment 10, aggressor seat 1) and becomes the aggressor.
\<close>

theorem undersized_raise_sets_aggressor_counterexample:
  "elemAt (players shortStack) (currentPlayerIndex shortStack) = Some (seat 0 3 10 Active None)
   \<and> finalTotalBet shortStack (seat 0 3 10 Active None) (Some 13) - gameState.currentBet shortStack = 3
   \<and> minRaise shortStack = 10
   \<and> lastAggressorIndex shortStack = Some 1
   \<and> map_sum id lastAggressorIndex (handleAction shortStack Raise (Some 13)) = Inr (Some 0)"
  by (simp add: shortStack_def table_def seat_def elemAt_def handleAction_def finalTotalBet_def
        actualAdded_def totalBet_def BB_AMOUNT_def allInIfEmpty_def)

text \<open>
  Claim C4, amended.  For every raise whose resulting total street bet tops the previous
  table bet by strictly less than the minimum raise increment, the chips still move (the
  seat's stack, street bet and total invested, and the pot, change by the amount actually
  added) and the minimum raise increment is unchanged; the last-aggressor marker is set
  to the raising seat's id.
\<close>

theorem undersized_raise_moves_chips_only:
  assumes "elemAt (players s) (currentPlayerIndex s) = Some p"
    and "finalTotalBet s p amt - gameState.currentBet s < minRaise s"
  shows "\<exists>s' q. handleAction s Raise amt = Inr s'
            \<and> players s' = (players s)[nat (currentPlayerIndex s) := q]
            \<and> chips q = chips p - actualAdded s p amt
            \<and> player.currentBet q = finalTotalBet s p amt
            \<and> totalInvested q = totalInvested p + actualAdded s p amt
            \<and> pot s' = pot s + actualAdded s p amt
            \<and> minRaise s' = minRaise s
            \<and> lastAggressorIndex s' = Some (pid p)"
proof -
  define q where "q = allInIfEmpty
      (p\<lparr>chips := chips p - actualAdded s p amt,
         player.currentBet := finalTotalBet s p amt,
         totalInvested := totalInvested p + actualAdded s p amt,
         lastAction := Some (RaiseLabel (finalTotalBet s p amt))\<rparr>)"
  have "handleAction s Raise amt =
          Inr (s\<lparr>players := (players s)[nat (currentPlayerIndex s) := q],
                 pot := pot s + actualAdded s p amt,
                 gameState.currentBet := max (gameState.currentBet s) (finalTotalBet s p amt),
                 minRaise := minRaise s,
                 lastAggressorIndex := Some (pid p)\<rparr>)"
    using assms by (simp add: handleAction_def q_def)
  moreover have "chips q = chips p - actualAdded s p amt"
    "player.currentBet q = finalTotalBet s p amt"
    "totalInvested q = totalInvested p + actualAdded s p amt"
    by (simp_all add: q_def allInIfEmpty_def)
  ultimately show ?thesis by (auto intro!: exI [of _ q])
qed

theorem undersized_raise_moves_chips_only_witness:
  "elemAt (players shortStack) (currentPlayerIndex shortStack) = Some (seat 0 3 10 Active None)
   \<and> finalTotalBet shortStack (seat 0 3 10 Active None) (Some 13) - gameState.currentBet shortStack
       < minRaise shortStack
   \<and> (\<exists>s' q. handleAction shortStack Raise (Some 13) = Inr s'
          \<and> players s' = (players shortStack)[nat (currentPlayerIndex shortStack) := q]
          \<and> chips q = 0 \<and> player.currentBet q = 13 \<and> totalInvested q = 13
          \<and> pot s' = 23 \<and> minRaise s' = 10 \<and> lastAggressorIndex s' = Some 0)"
proof -
  have h1: "elemAt (players shortStack) (currentPlayerIndex shortStack) = Some (seat 0 3 10 Active None)"
    by (simp add: shortStack_def table_def elemAt_def)
  have h2: "finalTotalBet shortStack (seat 0 3 10 Active None) (Some 13) - gameState.currentBet shortStack
              < minRaise shortStack"
    by (simp add: shortStack_def table_def seat_def finalTotalBet_def actualAdded_def totalBet_def
          BB_AMOUNT_def)
  have v: "actualAdded shortStack (seat 0 3 10 Active None) (Some 13) = 3"
    "finalTotalBet shortStack (seat 0 3 10 Active None) (Some 13) = 13"
    "pot shortStack = 20" "minRaise shortStack = 10"
    "chips (seat 0 3 10 Active None) = 3" "totalInvested (seat 0 3 10 Active None) = 10"
    "pid (seat 0 3 10 Active None) = 0"
    by (simp_all add: shortStack_def table_def seat_def finalTotalBet_def actualAdded_def
          totalBet_def BB_AMOUNT_def)
  from undersized_raise_moves_chips_only [OF h1 h2] show ?thesis
    using h1 h2 by (simp add: v)
qed

section \<open>The decision sanitizer\<close>

text \<open>
  Claim C8 (sanitizer raise clamp).  Whatever raw decision enters the sanitizing steps of
  \<open>getAIDecision\<close> (an integer or a fractional amount, or none), if the returned action
  is \<open>raise\<close> and the seat's stack plus street bet reaches the table bet plus
  \<open>minRaiseAmount\<close>, the returned amount lies between the table bet plus \<open>minRaiseAmount\<close>
  and the seat's stack plus street bet.
\<close>

theorem sanitized_raise_in_range:
  assumes "getAIDecision player gs validActions minRaiseAmount raw = Inr d"
    and "action d = AiRaise"
    and "gameState.currentBet gs + minRaiseAmount \<le> chips player + player.currentBet player"
  shows "\<exists>a. aiAction.amount d = Some a
            \<and> real_of_int (gameState.currentBet gs + minRaiseAmount) \<le> a
            \<and> a \<le> real_of_int (chips player + player.currentBet player)"
  using assms
  by (auto simp: getAIDecision_def Let_def split: if_splits sum.splits)

theorem sanitized_raise_in_range_witness:
  "getAIDecision (seat 0 1000 0 Active None) facingBet [''fold'', ''call'', ''raise''] 10
       \<lparr>action = AiRaise, aiAction.amount = Some (25 / 2), reasoning = None\<rparr>
     = Inr \<lparr>action = AiRaise, aiAction.amount = Some 30, reasoning = None\<rparr>
   \<and> action \<lparr>action = AiRaise, aiAction.amount = Some 30, reasoning = None\<rparr> = AiRaise
   \<and> gameState.currentBet facingBet + 10
        \<le> chips (seat 0 1000 0 Active None) + player.currentBet (seat 0 1000 0 Active None)
   \<and> (\<exists>a. aiAction.amount \<lparr>action = AiRaise, aiAction.amount = Some 30, reasoning = None\<rparr> = Some a
          \<and> real_of_int (gameState.currentBet facingBet + 10) \<le> a
          \<and> a \<le> real_of_int (chips (seat 0 1000 0 Active None)
                                + player.currentBet (seat 0 1000 0 Active None)))"
proof -
  have h1: "getAIDecision (seat 0 1000 0 Active None) facingBet [''fold'', ''call'', ''raise''] 10
               \<lparr>action = AiRaise, aiAction.amount = Some (25 / 2), reasoning = None\<rparr>
             = Inr \<lparr>action = AiRaise, aiAction.amount = Some 30, reasoning = None\<rparr>"
    by (simp add: getAIDecision_def facingBet_def table_def seat_def)
  have h2: "action \<lparr>action = AiRaise, aiAction.amount = Some 30, reasoning = None\<rparr> = AiRaise"
    by simp
  have h3: "gameState.currentBet facingBet + 10
              \<le> chips (seat 0 1000 0 Active None) + player.currentBet (seat 0 1000 0 Active None)"
    by (simp add: facingBet_def table_def seat_def)
  from sanitized_raise_in_range [OF h1 h2 h3] h1 h2 h3 show ?thesis by blast
qed

section \<open>Chip conservation\<close>


lemma chips_cleanPlayer [simp]: "chips (cleanPlayer p) = chips p"
  by (simp add: cleanPlayer_def)

lemma length_dealHands [simp]: "length (dealHands ps d) = length ps"
  by (induction ps arbitrary: d) (simp_all add: Let_def split: prod.splits)

lemma map_chips_dealHands [simp]: "map chips (dealHands ps d) = map chips ps"
  by (induction ps arbitrary: d) (simp_all add: Let_def split: prod.splits)

lemma map_status_dealHands [simp]: "map status (dealHands ps d) = map status ps"
  by (induction ps arbitrary: d) (simp_all add: Let_def split: prod.splits)

lemma map_currentBet_dealHands [simp]:
  "map player.currentBet (dealHands ps d) = map player.currentBet ps"
  by (induction ps arbitrary: d) (simp_all add: Let_def split: prod.splits)








lemma stage_payWinners [simp]: "stage (payWinners s w) = GameOver"
  by (simp add: payWinners_def)


lemma chips_resetPlayer [simp]: "chips (resetPlayer p) = chips p"
  by (simp add: resetPlayer_def)





section \<open>Street bets never exceed the table bet\<close>






lemma cleaned_bet:
  "status (cleanPlayer p) \<noteq> Spectator \<Longrightarrow> player.currentBet (cleanPlayer p) = 0"
  by (auto simp: cleanPlayer_def split: if_splits)


lemma dealt_nth:
  assumes "i < length ps"
  shows "status (dealHands ps d ! i) = status (ps ! i)"
    and "player.currentBet (dealHands ps d ! i) = player.currentBet (ps ! i)"
proof -
  from assms have "map status (dealHands ps d) ! i = map status ps ! i" by simp
  with assms show "status (dealHands ps d ! i) = status (ps ! i)"
    by (metis length_dealHands nth_map)
  from assms have "map player.currentBet (dealHands ps d) ! i = map player.currentBet ps ! i" by simp
  with assms show "player.currentBet (dealHands ps d ! i) = player.currentBet (ps ! i)"
    by (metis length_dealHands nth_map)
qed

lemma dealt_active_bet:
  assumes "i < length ps" and "status (dealHands (map cleanPlayer ps) d ! i) \<noteq> Spectator"
  shows "player.currentBet (dealHands (map cleanPlayer ps) d ! i) = 0"
  using assms by (simp add: dealt_nth cleaned_bet)




lemma bets_resetPlayer [simp]: "player.currentBet (resetPlayer p) = 0"
  by (simp add: resetPlayer_def)














section \<open>The heads-up blinds\<close>

text \<open>
  Claim C9 (heads-up blind exception).  With exactly two active seats the dealer posts the
  small blind and acts first, but the big blind is charged to the seat right after the
  dealer, whatever its status: with seats 0 and 2 left and the button on seat 0, the big
  blind falls on the spectator in seat 1, who has no chips, posts 0 and is marked all-in;
  seat 2, the other active seat, posts nothing and the pot holds the small blind only.
\<close>

theorem heads_up_big_blind_on_spectator:
  "length (filter (\<lambda>p. status p = Active) (map cleanPlayer (players headsUp))) = 2
   \<and> map status (map cleanPlayer (players headsUp))
        = [Active, Spectator, Active, Spectator, Spectator, Spectator, Spectator, Spectator]
   \<and> map_option (map_sum id (\<lambda>s. (dealerIndex s, currentPlayerIndex s, pot s,
                                     map player.currentBet (players s), map status (players s))))
        (startNewHand headsUp createDeck)
      = Some (Inr (0, 0, 5, [5, 0, 0, 0, 0, 0, 0, 0],
                   [Active, AllIn, Active, Spectator, Spectator, Spectator, Spectator, Spectator]))"
  by code_simp

section \<open>Round closure\<close>













section \<open>Showdown\<close>












section \<open>The evaluator returns\<close>

lemma length_sortDesc [simp]: "length (sortDesc cs) = length cs"
  by (simp add: sortDesc_def)



lemma set_sortDescInt [simp]: "set (sortDescInt vs) = set vs"
  by (simp add: sortDescInt_def)

lemma distinct_sortDescInt [simp]: "distinct (sortDescInt vs) = distinct vs"
  by (simp add: sortDescInt_def)

lemma length_sortDescInt [simp]: "length (sortDescInt vs) = length vs"
  by (simp add: sortDescInt_def)














section \<open>The score orders hands as the rules do\<close>
























lemma set_sortDesc [simp]: "set (sortDesc cs) = set cs"
  by (simp add: sortDesc_def)




end
